theory Spec2Isabelle
  imports Complex_Main "HOL-Library.Word" "HOL-Library.Signed_Division"
    "HOL-Library.Monad_Syntax"
begin

section \<open>Numbers\<close>

text \<open>
  The Go sources compute on \<open>float64\<close> and on \<open>int\<close>. A \<open>float64\<close> is modelled by a
  real number. The subtraction \<open>x - math.Floor(x)\<close> in \<open>GradientPattern.At\<close> is modelled
  with its rounding to the nearest \<open>float64\<close> (\<open>float64_sub\<close> below), because whether the
  fraction stays below 1 depends on it. Elsewhere rounding, NaN and the infinities are
  outside the model, and a theorem whose conclusion would depend on a division by zero
  carries the hypothesis that the divisor is not zero. Go's \<open>int\<close> is the 64-bit two's complement integer, modelled by
  a 64-bit word, so that the addition in \<open>CheckerPattern.At\<close> wraps as it does in Go.
\<close>

type_synonym float64 = real
type_synonym go_int = "64 word"

text \<open>\<open>math.Floor\<close>: the greatest integral value not above the argument, as a \<open>float64\<close>.\<close>

definition Floor :: "float64 \<Rightarrow> float64" where
  "Floor v = of_int \<lfloor>v\<rfloor>"

text \<open>
  Rounding to the nearest \<open>float64\<close>, ties to the even significand. A \<open>float64\<close> has a
  significand of 53 bits: between \<open>2 ^ e\<close> and \<open>2 ^ (e + 1)\<close> the representable numbers
  are the multiples of \<open>2 ^ (e - 52)\<close>, and below \<open>2 ^ (- 1022)\<close> the multiples of
  \<open>2 ^ (- 1074)\<close>. A result beyond the largest \<open>float64\<close> (an infinity in Go) is not
  represented.
\<close>

definition round_half_even :: "real \<Rightarrow> int" where
  "round_half_even r =
     (let f = \<lfloor>r\<rfloor>; d = r - of_int f
      in if d < 1 / 2 then f else if 1 / 2 < d then f + 1 else if even f then f else f + 1)"

definition float64_ulp :: "real \<Rightarrow> real" where
  "float64_ulp v = 2 powr of_int (max \<lfloor>log 2 \<bar>v\<bar>\<rfloor> (- 1022) - 52)"

definition round_float64 :: "real \<Rightarrow> float64" where
  "round_float64 v =
     (if v = 0 then 0 else of_int (round_half_even (v / float64_ulp v)) * float64_ulp v)"

text \<open>The \<open>float64\<close> operation \<open>a - b\<close>: the exact difference, rounded.\<close>

definition float64_sub :: "float64 \<Rightarrow> float64 \<Rightarrow> float64" where
  "float64_sub a b = round_float64 (a - b)"

text \<open>
  The conversion \<open>int(v)\<close> drops the fraction (towards zero). Go leaves the result
  implementation-dependent when the value does not fit into an \<open>int\<close>; the model takes
  the low 64 bits there, and the theorems that go through a conversion assume
  \<open>fits_int\<close> of the converted value.
\<close>

definition int_of_float64 :: "float64 \<Rightarrow> go_int" where
  "int_of_float64 v = word_of_int (if v < 0 then \<lceil>v\<rceil> else \<lfloor>v\<rfloor>)"

definition fits_int :: "float64 \<Rightarrow> bool" where
  "fits_int v = (- (2 ^ 63) \<le> \<lfloor>v\<rfloor> \<and> \<lfloor>v\<rfloor> < 2 ^ 63)"

text \<open>Go's \<open>%\<close> on \<open>int\<close>: the remainder of the division that truncates towards zero,
  with the sign of the dividend. (A zero divisor panics in Go; the sources only divide
  by the constant 2.)\<close>

definition go_rem :: "go_int \<Rightarrow> go_int \<Rightarrow> go_int" where
  "go_rem a b = word_of_int (sint a smod sint b)"

section \<open>Tuples\<close>

text \<open>
  Modelled from the spec: the type \<open>Tuple\<close> and its methods are declared outside
  pattern.go and objects.go. A tuple has four homogeneous components; a point has
  \<open>w = 1\<close>, a vector \<open>w = 0\<close>. \<open>Subtract\<close> and \<open>Dot\<close> work on all four components,
  \<open>Normalize\<close> divides every component by the magnitude.
\<close>

datatype tuple = Tuple (X: float64) (Y: float64) (Z: float64) (W: float64)

definition NewPoint :: "float64 \<Rightarrow> float64 \<Rightarrow> float64 \<Rightarrow> tuple" where
  "NewPoint x y z = Tuple x y z 1"

definition NewVector :: "float64 \<Rightarrow> float64 \<Rightarrow> float64 \<Rightarrow> tuple" where
  "NewVector x y z = Tuple x y z 0"

definition Origin_point :: tuple where
  "Origin_point = NewPoint 0 0 0"

definition Tuple_Subtract :: "tuple \<Rightarrow> tuple \<Rightarrow> tuple" where
  "Tuple_Subtract s t = Tuple (X s - X t) (Y s - Y t) (Z s - Z t) (W s - W t)"

definition Dot :: "tuple \<Rightarrow> tuple \<Rightarrow> float64" where
  "Dot s t = X s * X t + Y s * Y t + Z s * Z t + W s * W t"

definition Magnitude :: "tuple \<Rightarrow> float64" where
  "Magnitude t = sqrt (X t * X t + Y t * Y t + Z t * Z t + W t * W t)"

definition Normalize :: "tuple \<Rightarrow> tuple" where
  "Normalize t =
     (let m = Magnitude t in Tuple (X t / m) (Y t / m) (Z t / m) (W t / m))"

text \<open>The assignment \<open>t[3] = v\<close>.\<close>

definition set_W :: "tuple \<Rightarrow> float64 \<Rightarrow> tuple" where
  "set_W t v = Tuple (X t) (Y t) (Z t) v"

section \<open>Matrices\<close>

text \<open>
  Modelled from the spec: the types \<open>Matrix\<close> and \<open>Transformation\<close> and their methods
  are declared outside pattern.go and objects.go; both are modelled by the same 4 by 4
  matrix, written as its four rows. \<open>MultiplyTuple\<close> (\<open>ApplyTo\<close> on a
  \<open>Transformation\<close>) is the product of the matrix with a column, \<open>Transpose\<close> swaps
  rows and columns, and \<open>Inverse\<close> is the transposed matrix of cofactors divided by
  the determinant. A matrix is invertible when its determinant is not zero; what
  \<open>Inverse\<close> yields on a singular matrix is a division by zero and is not
  represented.
\<close>

datatype matrix = Matrix (row0: tuple) (row1: tuple) (row2: tuple) (row3: tuple)

definition NewTransform :: matrix where
  "NewTransform =
     Matrix (Tuple 1 0 0 0) (Tuple 0 1 0 0) (Tuple 0 0 1 0) (Tuple 0 0 0 1)"

definition MultiplyTuple :: "matrix \<Rightarrow> tuple \<Rightarrow> tuple" where
  "MultiplyTuple m t =
     Tuple (Dot (row0 m) t) (Dot (row1 m) t) (Dot (row2 m) t) (Dot (row3 m) t)"

definition ApplyTo :: "matrix \<Rightarrow> tuple \<Rightarrow> tuple" where
  "ApplyTo m t = MultiplyTuple m t"

definition Transpose :: "matrix \<Rightarrow> matrix" where
  "Transpose m =
     Matrix (Tuple (X (row0 m)) (X (row1 m)) (X (row2 m)) (X (row3 m)))
            (Tuple (Y (row0 m)) (Y (row1 m)) (Y (row2 m)) (Y (row3 m)))
            (Tuple (Z (row0 m)) (Z (row1 m)) (Z (row2 m)) (Z (row3 m)))
            (Tuple (W (row0 m)) (W (row1 m)) (W (row2 m)) (W (row3 m)))"

definition Multiply :: "matrix \<Rightarrow> matrix \<Rightarrow> matrix" where
  "Multiply m n =
     (let t = Transpose n in
      Matrix (MultiplyTuple t (row0 m)) (MultiplyTuple t (row1 m))
             (MultiplyTuple t (row2 m)) (MultiplyTuple t (row3 m)))"

text \<open>The determinant of the 3 by 3 matrix with rows \<open>(a, b, c)\<close>, \<open>(d, e, f)\<close>,
  \<open>(g, h, i)\<close>.\<close>

definition det3 ::
  "float64 \<Rightarrow> float64 \<Rightarrow> float64 \<Rightarrow> float64 \<Rightarrow> float64 \<Rightarrow> float64 \<Rightarrow>
   float64 \<Rightarrow> float64 \<Rightarrow> float64 \<Rightarrow> float64" where
  "det3 a b c d e f g h i =
     a * (e * i - f * h) - b * (d * i - f * g) + c * (d * h - e * g)"

text \<open>\<open>Cofactors m\<close> holds at row \<open>r\<close>, column \<open>c\<close> the cofactor of \<open>m\<close> at \<open>(r, c)\<close>:
  the determinant of \<open>m\<close> without row \<open>r\<close> and column \<open>c\<close>, negated when \<open>r + c\<close> is
  odd.\<close>

definition Cofactors :: "matrix \<Rightarrow> matrix" where
  "Cofactors m =
     (case m of Matrix (Tuple a b c d) (Tuple e f g h) (Tuple i j k l) (Tuple mm n oo p) \<Rightarrow>
      Matrix
        (Tuple (det3 f g h j k l n oo p) (- det3 e g h i k l mm oo p)
               (det3 e f h i j l mm n p) (- det3 e f g i j k mm n oo))
        (Tuple (- det3 b c d j k l n oo p) (det3 a c d i k l mm oo p)
               (- det3 a b d i j l mm n p) (det3 a b c i j k mm n oo))
        (Tuple (det3 b c d f g h n oo p) (- det3 a c d e g h mm oo p)
               (det3 a b d e f h mm n p) (- det3 a b c e f g mm n oo))
        (Tuple (- det3 b c d f g h j k l) (det3 a c d e g h i k l)
               (- det3 a b d e f h i j l) (det3 a b c e f g i j k)))"

definition Determinant :: "matrix \<Rightarrow> float64" where
  "Determinant m = Dot (row0 m) (row0 (Cofactors m))"

text \<open>Modelled from the spec: \<open>Matrix.Inverse\<close>, the inverse of an invertible matrix,
  here every entry of the transposed matrix of cofactors divided by the determinant.\<close>

definition scale_row :: "float64 \<Rightarrow> tuple \<Rightarrow> tuple" where
  "scale_row d t = Tuple (X t / d) (Y t / d) (Z t / d) (W t / d)"

definition Inverse :: "matrix \<Rightarrow> matrix" where
  "Inverse m =
     (let d = Determinant m; c = Transpose (Cofactors m) in
      Matrix (scale_row d (row0 c)) (scale_row d (row1 c))
             (scale_row d (row2 c)) (scale_row d (row3 c)))"

text \<open>An affine map keeps the homogeneous component: its last row is \<open>(0, 0, 0, 1)\<close>.\<close>

definition affine :: "matrix \<Rightarrow> bool" where
  "affine m = (row3 m = Tuple 0 0 0 1)"

section \<open>Rays, spheres and intersections\<close>

text \<open>
  Modelled from the spec: the types \<open>Ray\<close> and \<open>Intersection\<close> are declared outside
  pattern.go and objects.go. A ray is an origin and a direction, and \<open>Ray.Transform\<close>
  applies a matrix to both; an intersection is a distance \<open>t\<close> and the shape that was
  hit. The pointer to the sphere is modelled by the sphere itself.
\<close>

record ray =
  Origin :: tuple
  Direction :: tuple

definition Ray_Transform :: "ray \<Rightarrow> matrix \<Rightarrow> ray" where
  "Ray_Transform r m =
     \<lparr>Origin = MultiplyTuple m (Origin r), Direction = MultiplyTuple m (Direction r)\<rparr>"

record sphere =
  Transform :: matrix

definition NewSphere :: sphere where
  "NewSphere = \<lparr>Transform = NewTransform\<rparr>"

record intersection =
  T :: float64
  Object :: sphere

definition NewIntersection :: "float64 \<Rightarrow> sphere \<Rightarrow> intersection" where
  "NewIntersection t s = \<lparr>T = t, Object = s\<rparr>"

type_synonym IntersectionSet = "intersection list"

text \<open>\<open>Sphere.Intersect\<close> (objects.go, lines 20 to 37).\<close>

definition Intersect :: "sphere \<Rightarrow> ray \<Rightarrow> IntersectionSet" where
  "Intersect s ray =
     (let r = Ray_Transform ray (Inverse (Transform s));
          sphereToRay = Tuple_Subtract (Origin r) Origin_point;
          a = Dot (Direction r) (Direction r);
          b = 2 * Dot (Direction r) sphereToRay;
          c = Dot sphereToRay sphereToRay - 1;
          discriminant = b\<^sup>2 - 4 * a * c
      in if discriminant < 0 then []
         else [NewIntersection ((- b - sqrt discriminant) / (2 * a)) s,
               NewIntersection ((- b + sqrt discriminant) / (2 * a)) s])"

text \<open>\<open>Sphere.NormalAt\<close> (objects.go, lines 40 to 46).\<close>

definition NormalAt :: "sphere \<Rightarrow> tuple \<Rightarrow> tuple" where
  "NormalAt s worldPoint =
     (let objectPoint = MultiplyTuple (Inverse (Transform s)) worldPoint;
          objectNormal = Tuple_Subtract objectPoint Origin_point;
          worldNormal = MultiplyTuple (Transpose (Inverse (Transform s))) objectNormal;
          worldNormal = set_W worldNormal 0
      in Normalize worldNormal)"

text \<open>
  Modelled from the spec: the interface \<open>Shape\<close> that pattern.go takes is declared
  outside pattern.go and objects.go; the sphere is its one variant, and \<open>GetTransform\<close>
  reads the field.
\<close>

type_synonym Shape = sphere

definition Shape_GetTransform :: "Shape \<Rightarrow> matrix" where
  "Shape_GetTransform object = Transform object"

section \<open>Colors\<close>

text \<open>
  Modelled from the spec: the type \<open>Color\<close> and its methods are declared outside
  pattern.go and objects.go. \<open>BlendedPattern.At\<close> returns \<open>nil\<close> as a \<open>Color\<close>, so a color is a reference:
  either \<open>nil\<close> or three channels. The operations work channel by channel; on \<open>nil\<close>
  there is no channel to read and the call panics, which is the result \<open>None\<close>.
\<close>

datatype color = NilColor | NewColor float64 float64 float64

definition black :: color where
  "black = NewColor 0 0 0"

definition white :: color where
  "white = NewColor 1 1 1"

fun Color_Add :: "color \<Rightarrow> color \<Rightarrow> color option" where
  "Color_Add (NewColor r g b) (NewColor r' g' b') = Some (NewColor (r + r') (g + g') (b + b'))"
| "Color_Add _ _ = None"

fun Color_Subtract :: "color \<Rightarrow> color \<Rightarrow> color option" where
  "Color_Subtract (NewColor r g b) (NewColor r' g' b') =
     Some (NewColor (r - r') (g - g') (b - b'))"
| "Color_Subtract _ _ = None"

fun Color_Multiply :: "color \<Rightarrow> float64 \<Rightarrow> color option" where
  "Color_Multiply (NewColor r g b) v = Some (NewColor (r * v) (g * v) (b * v))"
| "Color_Multiply NilColor v = None"

fun AverageBlend :: "color \<Rightarrow> color \<Rightarrow> color option" where
  "AverageBlend (NewColor r g b) (NewColor r' g' b') =
     Some (NewColor ((r + r') / 2) ((g + g') / 2) ((b + b') / 2))"
| "AverageBlend _ _ = None"

section \<open>Patterns\<close>

text \<open>
  Each variant of pattern.go is a constructor. \<open>PatternProps\<close> is embedded in every
  variant: its \<open>Transform\<close> is the first argument, its children \<open>A\<close> and \<open>B\<close> are the
  two patterns of a stripe, gradient, ring or checker pattern (both are \<open>nil\<close> in a
  solid and in a blended pattern, which keeps its children in its own fields
  \<open>patternA\<close> and \<open>patternB\<close>). The field \<open>p\<close> is set by every constructor function to
  the pattern itself, so a call through \<open>props.p\<close> is a call on the pattern. The
  children of a pattern are patterns: a \<open>nil\<close> child is not represented.
\<close>

datatype pattern =
    SolidPattern matrix color
  | BlendedPattern matrix pattern pattern
  | StripePattern matrix pattern pattern
  | GradientPattern matrix pattern pattern
  | RingPattern matrix pattern pattern
  | CheckerPattern matrix pattern pattern

definition NewSolidPattern :: "color \<Rightarrow> pattern" where
  "NewSolidPattern c = SolidPattern NewTransform c"

definition NewBlendedPattern :: "pattern \<Rightarrow> pattern \<Rightarrow> pattern" where
  "NewBlendedPattern a b = BlendedPattern NewTransform a b"

definition NewStripePattern :: "pattern \<Rightarrow> pattern \<Rightarrow> pattern" where
  "NewStripePattern a b = StripePattern NewTransform a b"

definition NewGradientPattern :: "pattern \<Rightarrow> pattern \<Rightarrow> pattern" where
  "NewGradientPattern a b = GradientPattern NewTransform a b"

definition NewRingPattern :: "pattern \<Rightarrow> pattern \<Rightarrow> pattern" where
  "NewRingPattern a b = RingPattern NewTransform a b"

definition NewCheckerPattern :: "pattern \<Rightarrow> pattern \<Rightarrow> pattern" where
  "NewCheckerPattern a b = CheckerPattern NewTransform a b"

text \<open>\<open>PatternProps.GetTransform\<close> and \<open>PatternProps.SetTransform\<close> (pattern.go, lines
  37 to 44). The assignment to the field returns the updated pattern.\<close>

fun GetTransform :: "pattern \<Rightarrow> matrix" where
  "GetTransform (SolidPattern m c) = m"
| "GetTransform (BlendedPattern m a b) = m"
| "GetTransform (StripePattern m a b) = m"
| "GetTransform (GradientPattern m a b) = m"
| "GetTransform (RingPattern m a b) = m"
| "GetTransform (CheckerPattern m a b) = m"

fun SetTransform :: "pattern \<Rightarrow> matrix \<Rightarrow> pattern" where
  "SetTransform (SolidPattern m c) transform = SolidPattern transform c"
| "SetTransform (BlendedPattern m a b) transform = BlendedPattern transform a b"
| "SetTransform (StripePattern m a b) transform = StripePattern transform a b"
| "SetTransform (GradientPattern m a b) transform = GradientPattern transform a b"
| "SetTransform (RingPattern m a b) transform = RingPattern transform a b"
| "SetTransform (CheckerPattern m a b) transform = CheckerPattern transform a b"

text \<open>
  The method \<open>At\<close> of each variant (pattern.go, lines 67, 96, 113, 134, 153 and 174).
  The result is \<open>None\<close> when the call panics. In \<open>GradientPattern.At\<close> the calls are in
  Go's order of evaluation: \<open>p.B.At\<close>, \<open>p.A.At\<close>, \<open>Subtract\<close>, then \<open>p.A.At\<close> again,
  \<open>Multiply\<close> and \<open>Add\<close>.
\<close>

fun At :: "pattern \<Rightarrow> tuple \<Rightarrow> color option" where
  "At (SolidPattern m c) point = Some c"
| "At (BlendedPattern m a b) point = Some NilColor"
| "At (StripePattern m a b) point =
     (if go_rem (int_of_float64 (Floor (X point))) 2 = 0 then At a point else At b point)"
| "At (GradientPattern m a b) point =
     do {
       cb \<leftarrow> At b point;
       ca \<leftarrow> At a point;
       distance \<leftarrow> Color_Subtract cb ca;
       let fraction = float64_sub (X point) (Floor (X point));
       ca' \<leftarrow> At a point;
       scaled \<leftarrow> Color_Multiply distance fraction;
       Color_Add ca' scaled
     }"
| "At (RingPattern m a b) point =
     (if go_rem (int_of_float64 (Floor (sqrt ((X point)\<^sup>2 + (Z point)\<^sup>2)))) 2 = 0
      then At a point else At b point)"
| "At (CheckerPattern m a b) point =
     (if go_rem (int_of_float64 (Floor (X point)) + int_of_float64 (Floor (Y point))
                 + int_of_float64 (Floor (Z point))) 2 = 0
      then At a point else At b point)"

text \<open>\<open>PatternProps.AtObject\<close> (pattern.go, lines 47 to 51), the method every variant
  inherits; \<open>props.p\<close> is the pattern itself.\<close>

definition PatternProps_AtObject :: "pattern \<Rightarrow> Shape \<Rightarrow> tuple \<Rightarrow> color option" where
  "PatternProps_AtObject p object worldPoint =
     (let localPoint = ApplyTo (Inverse (Shape_GetTransform object)) worldPoint;
          patternPoint = ApplyTo (Inverse (GetTransform p)) localPoint
      in At p patternPoint)"

text \<open>\<open>BlendedPattern.AtObject\<close> (pattern.go, lines 86 to 93), with the blended
  pattern's transform \<open>m\<close> and its fields \<open>patternA\<close> and \<open>patternB\<close>.\<close>

definition BlendedPattern_AtObject ::
  "matrix \<Rightarrow> pattern \<Rightarrow> pattern \<Rightarrow> Shape \<Rightarrow> tuple \<Rightarrow> color option" where
  "BlendedPattern_AtObject m patternA patternB object worldPoint =
     (let localPoint = ApplyTo (Inverse (Shape_GetTransform object)) worldPoint;
          patternPointA = ApplyTo (Inverse (GetTransform patternA)) localPoint
      in do {
        colorA \<leftarrow> At patternA patternPointA;
        let patternPointB = ApplyTo (Inverse m) localPoint;
        colorB \<leftarrow> At patternA patternPointB;
        AverageBlend colorA colorB
      })"

text \<open>The method \<open>AtObject\<close> of the interface \<open>Pattern\<close>: the blended pattern has its
  own, every other variant the one of \<open>PatternProps\<close>.\<close>

fun AtObject :: "pattern \<Rightarrow> Shape \<Rightarrow> tuple \<Rightarrow> color option" where
  "AtObject (BlendedPattern m a b) object worldPoint =
     BlendedPattern_AtObject m a b object worldPoint"
| "AtObject p object worldPoint = PatternProps_AtObject p object worldPoint"

text \<open>A world point is on the sphere when its object-space image, under the inverse
  of the sphere's transform, is at distance 1 from the object-space origin.\<close>

definition on_sphere :: "sphere \<Rightarrow> tuple \<Rightarrow> bool" where
  "on_sphere s worldPoint =
     (let objectPoint = MultiplyTuple (Inverse (Transform s)) worldPoint
      in (X objectPoint)\<^sup>2 + (Y objectPoint)\<^sup>2 + (Z objectPoint)\<^sup>2 = 1)"

text \<open>
  \<open>BlendedPattern.AtObject\<close> as the specification words it, for comparison with the
  source: the world point goes into object space through the inverse of the shape's
  transform, child A and child B are each evaluated at the object point mapped through
  that child's own inverse transform, and the two colors are averaged.
\<close>

definition BlendedPattern_AtObject_spec ::
  "matrix \<Rightarrow> pattern \<Rightarrow> pattern \<Rightarrow> Shape \<Rightarrow> tuple \<Rightarrow> color option" where
  "BlendedPattern_AtObject_spec m patternA patternB object worldPoint =
     (let objectPoint = ApplyTo (Inverse (Shape_GetTransform object)) worldPoint
      in do {
        colorA \<leftarrow> At patternA (ApplyTo (Inverse (GetTransform patternA)) objectPoint);
        colorB \<leftarrow> At patternB (ApplyTo (Inverse (GetTransform patternB)) objectPoint);
        AverageBlend colorA colorB
      })"

text \<open>A matrix without an inverse: every entry is zero.\<close>

definition zero_matrix :: matrix where
  "zero_matrix = Matrix (Tuple 0 0 0 0) (Tuple 0 0 0 0) (Tuple 0 0 0 0) (Tuple 0 0 0 0)"

section \<open>Properties of the matrix model\<close>

lemma Inverse_NewTransform: "Inverse NewTransform = NewTransform"
  by (simp add: Inverse_def NewTransform_def Determinant_def Cofactors_def det3_def
      Transpose_def scale_row_def Dot_def)

lemma MultiplyTuple_NewTransform: "MultiplyTuple NewTransform t = t"
  by (simp add: MultiplyTuple_def NewTransform_def Dot_def)

lemma ApplyTo_NewTransform: "ApplyTo NewTransform t = t"
  by (simp add: ApplyTo_def MultiplyTuple_NewTransform)

lemma Determinant_NewTransform: "Determinant NewTransform = 1"
  by (simp add: NewTransform_def Determinant_def Cofactors_def det3_def Dot_def)

lemma Determinant_zero_matrix: "Determinant zero_matrix = 0"
  by (simp add: zero_matrix_def Determinant_def Cofactors_def det3_def Dot_def)

text \<open>The modelled \<open>Inverse\<close> is the inverse: for a matrix with a determinant other than
  zero, the product of \<open>Inverse m\<close> and \<open>m\<close> is the identity.\<close>

lemma Determinant_explicit:
  "Determinant (Matrix (Tuple a b c d) (Tuple e f g h) (Tuple i j k l) (Tuple mm n oo p)) =
     a * det3 f g h j k l n oo p - b * det3 e g h i k l mm oo p
     + c * det3 e f h i j l mm n p - d * det3 e f g i j k mm n oo"
  by (simp add: Determinant_def Cofactors_def Dot_def)

lemma Inverse_left_explicit:
  fixes a b c d e f g h i j k l mm n oo p :: real
  defines "M \<equiv> Matrix (Tuple a b c d) (Tuple e f g h) (Tuple i j k l) (Tuple mm n oo p)"
  assumes nz: "Determinant M \<noteq> 0"
  shows "Multiply (Inverse M) M = NewTransform"
proof -
  define D where "D = Determinant M"
  have D: "D = a * det3 f g h j k l n oo p - b * det3 e g h i k l mm oo p
     + c * det3 e f h i j l mm n p - d * det3 e f g i j k mm n oo"
    unfolding D_def M_def by (rule Determinant_explicit)
  have D0: "D \<noteq> 0" using nz by (simp add: D_def)
  have inv: "Inverse M =
    Matrix (scale_row D (row0 (Transpose (Cofactors M)))) (scale_row D (row1 (Transpose (Cofactors M))))
           (scale_row D (row2 (Transpose (Cofactors M)))) (scale_row D (row3 (Transpose (Cofactors M))))"
    by (simp add: Inverse_def Let_def D_def)
  show ?thesis
    unfolding inv
    apply (simp add: M_def Multiply_def MultiplyTuple_def Dot_def scale_row_def Transpose_def Cofactors_def NewTransform_def)
    apply (simp add: D0 field_simps)
    apply (simp only: D det3_def)
    apply (intro conjI)
    apply algebra+
    done
qed

lemma Inverse_left: "Determinant m \<noteq> 0 \<Longrightarrow> Multiply (Inverse m) m = NewTransform"
proof -
  assume nz: "Determinant m \<noteq> 0"
  obtain r0 r1 r2 r3 where m: "m = Matrix r0 r1 r2 r3" by (cases m)
  obtain a b c d where r0: "r0 = Tuple a b c d" by (cases r0)
  obtain e f g h where r1: "r1 = Tuple e f g h" by (cases r1)
  obtain i j k l where r2: "r2 = Tuple i j k l" by (cases r2)
  obtain mm n oo p where r3: "r3 = Tuple mm n oo p" by (cases r3)
  show ?thesis
    using nz unfolding m r0 r1 r2 r3 by (rule Inverse_left_explicit)
qed

text \<open>
  For an affine \<open>m\<close> with inverse \<open>N\<close>, the first three components of a tuple \<open>v\<close> are
  recovered from the first three components of its image under the transpose of \<open>N\<close>;
  so that image is not zero in its first three components unless \<open>v\<close> is.
\<close>

lemma normal_pulled_back:
  fixes v :: tuple
  assumes inv: "Multiply N m = NewTransform" and aff: "affine m"
  defines "wn \<equiv> MultiplyTuple (Transpose N) v"
  shows "X v = X (row0 m) * X wn + X (row1 m) * Y wn + X (row2 m) * Z wn"
    and "Y v = Y (row0 m) * X wn + Y (row1 m) * Y wn + Y (row2 m) * Z wn"
    and "Z v = Z (row0 m) * X wn + Z (row1 m) * Y wn + Z (row2 m) * Z wn"
proof -
  have r3: "X (row3 m) = 0" "Y (row3 m) = 0" "Z (row3 m) = 0"
    using aff by (simp_all add: affine_def)
  have cx: "X (row0 (Multiply N m)) = 1" "X (row1 (Multiply N m)) = 0"
    "X (row2 (Multiply N m)) = 0" "X (row3 (Multiply N m)) = 0"
    by (simp_all add: inv NewTransform_def)
  have cy: "Y (row0 (Multiply N m)) = 0" "Y (row1 (Multiply N m)) = 1"
    "Y (row2 (Multiply N m)) = 0" "Y (row3 (Multiply N m)) = 0"
    by (simp_all add: inv NewTransform_def)
  have cz: "Z (row0 (Multiply N m)) = 0" "Z (row1 (Multiply N m)) = 0"
    "Z (row2 (Multiply N m)) = 1" "Z (row3 (Multiply N m)) = 0"
    by (simp_all add: inv NewTransform_def)
  show "X v = X (row0 m) * X wn + X (row1 m) * Y wn + X (row2 m) * Z wn"
    using cx r3 unfolding wn_def
    by (simp add: Multiply_def MultiplyTuple_def Dot_def Transpose_def) algebra
  show "Y v = Y (row0 m) * X wn + Y (row1 m) * Y wn + Y (row2 m) * Z wn"
    using cy r3 unfolding wn_def
    by (simp add: Multiply_def MultiplyTuple_def Dot_def Transpose_def) algebra
  show "Z v = Z (row0 m) * X wn + Z (row1 m) * Y wn + Z (row2 m) * Z wn"
    using cz r3 unfolding wn_def
    by (simp add: Multiply_def MultiplyTuple_def Dot_def Transpose_def) algebra
qed

lemma Magnitude_Normalize:
  assumes "X t \<noteq> 0 \<or> Y t \<noteq> 0 \<or> Z t \<noteq> 0 \<or> W t \<noteq> 0"
  shows "Magnitude (Normalize t) = 1"
proof -
  define q where "q = X t * X t + Y t * Y t + Z t * Z t + W t * W t"
  define r where "r = sqrt q"
  have "0 < X t * X t \<or> 0 < Y t * Y t \<or> 0 < Z t * Z t \<or> 0 < W t * W t"
    using assms by (simp add: zero_less_mult_iff) linarith
  moreover have "0 \<le> X t * X t" "0 \<le> Y t * Y t" "0 \<le> Z t * Z t" "0 \<le> W t * W t"
    by simp_all
  ultimately have q: "0 < q"
    unfolding q_def by linarith
  then have r: "r * r = q" "r \<noteq> 0"
    by (simp_all add: r_def)
  have n: "Normalize t = Tuple (X t / r) (Y t / r) (Z t / r) (W t / r)"
    by (simp add: Normalize_def Let_def Magnitude_def q_def r_def)
  have "X t / r * (X t / r) + Y t / r * (Y t / r) + Z t / r * (Z t / r) + W t / r * (W t / r)
      = q / (r * r)"
    by (simp add: q_def add_divide_distrib)
  also have "\<dots> = 1"
    using q by (simp add: r)
  finally show ?thesis
    by (simp add: n Magnitude_def)
qed

lemma Transpose_NewTransform: "Transpose NewTransform = NewTransform"
  by (simp add: Transpose_def NewTransform_def)

section \<open>Properties of the rounding\<close>

lemma round_half_even_le: "r \<le> of_int N \<Longrightarrow> round_half_even r \<le> N"
proof -
  assume le: "r \<le> of_int N"
  show ?thesis
  proof (cases "r = of_int N")
    case True
    then show ?thesis by (simp add: round_half_even_def)
  next
    case False
    with le have "r < of_int N" by simp
    then have "\<lfloor>r\<rfloor> < N" by (simp add: floor_less_iff)
    then have "\<lfloor>r\<rfloor> + 1 \<le> N" by simp
    then show ?thesis by (simp add: round_half_even_def Let_def)
  qed
qed

lemma round_half_even_ge: "of_int N \<le> r \<Longrightarrow> N \<le> round_half_even r"
proof -
  assume "of_int N \<le> r"
  then have "N \<le> \<lfloor>r\<rfloor>" by (simp add: le_floor_iff)
  then show ?thesis by (simp add: round_half_even_def Let_def)
qed

lemma float64_ulp_eval:
  assumes lo: "2 powr of_int k \<le> \<bar>v\<bar>" and hi: "\<bar>v\<bar> < 2 powr of_int (k + 1)"
    and k: "- 1022 \<le> k"
  shows "float64_ulp v = 2 powr of_int (k - 52)"
proof -
  have pos: "0 < \<bar>v\<bar>"
    using lo by (smt (verit) powr_gt_zero)
  have "\<lfloor>log 2 \<bar>v\<bar>\<rfloor> = k"
    using lo hi by (simp add: floor_log_eq_powr_iff [OF pos])
  then show ?thesis
    using k by (simp add: float64_ulp_def max_def)
qed

lemma round_float64_quarter: "round_float64 (1 / 4) = 1 / 4"
proof -
  have "float64_ulp (1 / 4) = 2 powr of_int (- 2 - 52)"
    by (rule float64_ulp_eval) (simp_all add: powr_neg_numeral)
  then have u: "float64_ulp (1 / 4) = 1 / 2 ^ 54"
    by (simp add: powr_neg_numeral)
  show ?thesis
    by (simp add: round_float64_def u round_half_even_def)
qed

lemma round_float64_half: "round_float64 (1 / 2) = 1 / 2"
proof -
  have "float64_ulp (1 / 2) = 2 powr of_int (- 1 - 52)"
    by (rule float64_ulp_eval) (simp_all add: powr_neg_numeral powr_minus)
  then have u: "float64_ulp (1 / 2) = 1 / 2 ^ 53"
    by (simp add: powr_neg_numeral)
  show ?thesis
    by (simp add: round_float64_def u round_half_even_def)
qed

lemma round_float64_three_quarters: "round_float64 (3 / 4) = 3 / 4"
proof -
  have "float64_ulp (3 / 4) = 2 powr of_int (- 1 - 52)"
    by (rule float64_ulp_eval) (simp_all add: powr_neg_numeral powr_minus)
  then have u: "float64_ulp (3 / 4) = 1 / 2 ^ 53"
    by (simp add: powr_neg_numeral)
  show ?thesis
    by (simp add: round_float64_def u round_half_even_def)
qed

lemma round_half_even_up:
  assumes "1 / 2 < d" and "d < 1"
  shows "round_half_even (of_int f + d) = f + 1"
proof -
  have "\<lfloor>of_int f + d\<rfloor> = f"
    using assms by (simp add: floor_eq_iff)
  then show ?thesis
    using assms by (simp add: round_half_even_def Let_def)
qed

lemma round_float64_below_one: "round_float64 (1 - 1 / 2 ^ 60) = 1"
proof -
  define v :: real where "v = 1 - 1 / 2 ^ 60"
  have v0: "v \<noteq> 0" by (simp add: v_def)
  have "float64_ulp v = 2 powr of_int (- 1 - 52)"
    unfolding v_def by (rule float64_ulp_eval) (simp_all add: powr_neg_numeral powr_minus)
  then have u: "float64_ulp v = 1 / 2 ^ 53"
    by (simp add: powr_neg_numeral)
  have q: "v / (1 / 2 ^ 53) = of_int (2 ^ 53 - 1) + (1 - 1 / 2 ^ 7)"
    by (simp add: v_def)
  have "round_half_even (v / (1 / 2 ^ 53)) = (2 ^ 53 - 1) + 1"
    unfolding q by (rule round_half_even_up) simp_all
  then have "round_float64 v = of_int (2 ^ 53) * (1 / 2 ^ 53)"
    using v0 by (simp add: round_float64_def u)
  then show ?thesis
    by (simp add: v_def)
qed

lemma round_float64_unit_interval:
  assumes "0 \<le> v" and "v < 1"
  shows "0 \<le> round_float64 v \<and> round_float64 v \<le> 1"
proof (cases "v = 0")
  case True
  then show ?thesis by (simp add: round_float64_def)
next
  case False
  with assms have pos: "0 < v" by simp
  define E where "E = max \<lfloor>log 2 \<bar>v\<bar>\<rfloor> (- 1022) - 52"
  define n where "n = nat (- E)"
  have "log 2 v < 0"
    using pos assms by simp
  then have "\<lfloor>log 2 \<bar>v\<bar>\<rfloor> \<le> - 1"
    using pos by (simp add: floor_le_iff)
  then have E: "E \<le> - 53"
    by (simp add: E_def)
  then have En: "of_int E = - real n"
    by (simp add: n_def)
  have u: "float64_ulp v = inverse (2 ^ n)"
    by (simp add: float64_ulp_def E_def [symmetric] En powr_minus powr_realpow)
  have r: "v / float64_ulp v = v * 2 ^ n"
    by (simp add: u divide_inverse)
  have "v * 2 ^ n \<le> of_int (2 ^ n)"
    using assms by (simp add: mult_left_le_one_le)
  then have up: "round_half_even (v / float64_ulp v) \<le> 2 ^ n"
    unfolding r by (rule round_half_even_le)
  have "of_int 0 \<le> v * 2 ^ n"
    using assms by simp
  then have lo: "0 \<le> round_half_even (v / float64_ulp v)"
    unfolding r by (rule round_half_even_ge)
  have "round_float64 v = of_int (round_half_even (v / float64_ulp v)) * inverse (2 ^ n)"
    using False by (simp add: round_float64_def u)
  moreover have "of_int (round_half_even (v / float64_ulp v)) * inverse (2 ^ n) \<le> (1::real)"
  proof -
    have "(of_int (round_half_even (v / float64_ulp v)) :: real) \<le> of_int (2 ^ n)"
      using up by (simp only: of_int_le_iff)
    then show ?thesis
      by (simp add: field_simps)
  qed
  moreover have "0 \<le> of_int (round_half_even (v / float64_ulp v)) * inverse ((2::real) ^ n)"
    using lo by simp
  ultimately show ?thesis by simp
qed

section \<open>Properties of the integer conversion\<close>

lemma int_of_float64_Floor: "int_of_float64 (Floor v) = word_of_int \<lfloor>v\<rfloor>"
  by (simp add: int_of_float64_def Floor_def)

lemma smod_2_eq_0_iff: "(k::int) smod 2 = 0 \<longleftrightarrow> even k"
  by (auto simp: signed_modulo_int_def sgn_if)

lemma smod_2_cases: "(k::int) smod 2 = 0 \<or> k smod 2 = 1 \<or> k smod 2 = - 1"
proof -
  have "\<bar>k\<bar> mod 2 = 0 \<or> \<bar>k\<bar> mod 2 = 1" by presburger
  then show ?thesis
    by (auto simp: signed_modulo_int_def sgn_if)
qed

lemma even_sint64: "even (sint (w::64 word)) \<longleftrightarrow> even w"
  using bit_sint_iff [of w 0] by (simp add: bit_0)

lemma even_word_of_int64: "even (word_of_int k :: 64 word) \<longleftrightarrow> even k"
  using bit_word_of_int_iff [of k 0, where 'a=64] by (simp add: bit_0)

text \<open>The test \<open>n % 2 == 0\<close> on an \<open>int\<close> holds exactly for the even words, negative
  ones included: the remainder of an odd negative number is \<open>-1\<close>, not \<open>0\<close>.\<close>

lemma go_rem_2: "go_rem w 2 = 0 \<longleftrightarrow> even w"
proof -
  have "go_rem w 2 = word_of_int (sint w smod 2)"
    by (simp add: go_rem_def)
  moreover have "(word_of_int (sint w smod 2) :: 64 word) = 0 \<longleftrightarrow> sint w smod 2 = 0"
    using smod_2_cases [of "sint w"] by auto
  ultimately show ?thesis
    by (simp add: smod_2_eq_0_iff even_sint64)
qed

lemma even_int_mod_2: "even (k::int) \<longleftrightarrow> k mod 2 = 0"
  by presburger

lemma floor_minus_1: "\<lfloor>- 1 :: real\<rfloor> = - 1"
  using floor_of_int [of "- 1", where 'a = real] by simp

lemma stripe_band: "go_rem (int_of_float64 (Floor v)) 2 = 0 \<longleftrightarrow> \<lfloor>v\<rfloor> mod 2 = 0"
  by (simp only: go_rem_2 int_of_float64_Floor even_word_of_int64 even_int_mod_2)

text \<open>The sum of the three converted coordinates may leave the range of \<open>int\<close> and wrap;
  its parity is that of the sum of the three floors all the same.\<close>

lemma checker_cell:
  "go_rem (int_of_float64 (Floor u) + int_of_float64 (Floor v) + int_of_float64 (Floor w)) 2 = 0
     \<longleftrightarrow> (\<lfloor>u\<rfloor> + \<lfloor>v\<rfloor> + \<lfloor>w\<rfloor>) mod 2 = 0"
proof -
  have "int_of_float64 (Floor u) + int_of_float64 (Floor v) + int_of_float64 (Floor w)
      = word_of_int (\<lfloor>u\<rfloor> + \<lfloor>v\<rfloor> + \<lfloor>w\<rfloor>)"
    by (simp add: int_of_float64_Floor)
  then show ?thesis
    by (simp only: go_rem_2 even_word_of_int64 even_int_mod_2)
qed

section \<open>The blended pattern\<close>

text \<open>
  C1. The claim: for every shape and world point, \<open>BlendedPattern.AtObject\<close> evaluates
  child A and child B, each through its own inverse transform, and returns the average
  of the two colors. The source evaluates \<open>patternA\<close> twice, the second time through
  the blended pattern's own transform, and never reads \<open>patternB\<close>. For the blend of a
  solid white and a solid black pattern on the unit sphere at the origin point the
  source returns white, the specification's reading returns the grey
  \<open>(0.5, 0.5, 0.5)\<close>; and the result of the source does not depend on \<open>patternB\<close> at
  all.
\<close>

theorem BlendedPattern_AtObject_ignores_patternB:
  "AtObject (NewBlendedPattern (NewSolidPattern white) (NewSolidPattern black)) NewSphere
       (NewPoint 0 0 0) = Some white
   \<and> BlendedPattern_AtObject_spec NewTransform (NewSolidPattern white) (NewSolidPattern black)
       NewSphere (NewPoint 0 0 0) = Some (NewColor (1 / 2) (1 / 2) (1 / 2))
   \<and> AtObject (BlendedPattern m a b) object worldPoint
       = AtObject (BlendedPattern m a b') object worldPoint"
  by (simp add: NewBlendedPattern_def NewSolidPattern_def BlendedPattern_AtObject_def
      BlendedPattern_AtObject_spec_def white_def black_def)

text \<open>
  C10. \<open>BlendedPattern.At\<close> returns \<open>nil\<close> at every point, also when it is reached
  through the shared \<open>PatternProps.AtObject\<close>; no operation on colors accepts \<open>nil\<close>,
  and a gradient pattern with a blended child, which subtracts, scales and adds the
  colors of its children, panics at every point.
\<close>

theorem BlendedPattern_At_nil:
  "At (BlendedPattern m a b) point = Some NilColor
   \<and> PatternProps_AtObject (BlendedPattern m a b) object worldPoint = Some NilColor
   \<and> Color_Add NilColor c = None \<and> Color_Add c NilColor = None
   \<and> Color_Subtract NilColor c = None \<and> Color_Subtract c NilColor = None
   \<and> Color_Multiply NilColor v = None
   \<and> AverageBlend NilColor c = None \<and> AverageBlend c NilColor = None
   \<and> At (GradientPattern m' (BlendedPattern m a b) q) point = None
   \<and> At (GradientPattern m' q (BlendedPattern m a b)) point = None"
  by (cases c) (auto simp: PatternProps_AtObject_def Let_def split: Option.bind_splits)

section \<open>The shared evaluation path\<close>

text \<open>
  C5. For every variant of pattern other than the blended one, every shape and every
  world point, \<open>AtObject\<close> is the variant's own \<open>At\<close> at the pattern point: the object
  point is the world point under the inverse of the shape's transform, and the pattern
  point is the object point under the inverse of the pattern's own transform \<open>m\<close>.
\<close>

theorem AtObject_two_stage:
  "AtObject (SolidPattern m c) object worldPoint =
     At (SolidPattern m c)
       (ApplyTo (Inverse m) (ApplyTo (Inverse (Transform object)) worldPoint))
   \<and> AtObject (StripePattern m a b) object worldPoint =
     At (StripePattern m a b)
       (ApplyTo (Inverse m) (ApplyTo (Inverse (Transform object)) worldPoint))
   \<and> AtObject (GradientPattern m a b) object worldPoint =
     At (GradientPattern m a b)
       (ApplyTo (Inverse m) (ApplyTo (Inverse (Transform object)) worldPoint))
   \<and> AtObject (RingPattern m a b) object worldPoint =
     At (RingPattern m a b)
       (ApplyTo (Inverse m) (ApplyTo (Inverse (Transform object)) worldPoint))
   \<and> AtObject (CheckerPattern m a b) object worldPoint =
     At (CheckerPattern m a b)
       (ApplyTo (Inverse m) (ApplyTo (Inverse (Transform object)) worldPoint))"
  by (simp add: PatternProps_AtObject_def Shape_GetTransform_def Let_def)

text \<open>
  The stripe pattern of white and black, moved by \<open>1/2\<close> along \<open>x\<close>, on a sphere scaled
  by 2: the world point \<open>(1/2, 0, 0)\<close> is the object point \<open>(1/4, 0, 0)\<close> and the
  pattern point \<open>(-1/4, 0, 0)\<close>, where the stripe is black. Without the shape's
  transform, without the pattern's transform, without both, or with the two taken in
  the other order, the point would lie in a white stripe.
\<close>

theorem AtObject_two_stage_witness:
  "AtObject
     (StripePattern (Matrix (Tuple 1 0 0 (1 / 2)) (Tuple 0 1 0 0) (Tuple 0 0 1 0) (Tuple 0 0 0 1))
        (NewSolidPattern white) (NewSolidPattern black))
     \<lparr>Transform = Matrix (Tuple 2 0 0 0) (Tuple 0 2 0 0) (Tuple 0 0 2 0) (Tuple 0 0 0 1)\<rparr>
     (NewPoint (1 / 2) 0 0) = Some black"
  using AtObject_two_stage
    [where m = "Matrix (Tuple 1 0 0 (1 / 2)) (Tuple 0 1 0 0) (Tuple 0 0 1 0) (Tuple 0 0 0 1)"
      and a = "NewSolidPattern white" and b = "NewSolidPattern black"
      and object =
        "\<lparr>Transform = Matrix (Tuple 2 0 0 0) (Tuple 0 2 0 0) (Tuple 0 0 2 0) (Tuple 0 0 0 1)\<rparr>"
      and worldPoint = "NewPoint (1 / 2) 0 0", THEN conjunct2, THEN conjunct1]
  by (simp add: NewSolidPattern_def NewPoint_def ApplyTo_def MultiplyTuple_def Dot_def
      Inverse_def Determinant_def Cofactors_def det3_def Transpose_def scale_row_def
      stripe_band)

section \<open>Setting a transform\<close>

text \<open>
  C9. The claim: a transform that has no inverse is rejected when it is set. The
  source validates nothing: \<open>PatternProps.SetTransform\<close> is a plain assignment and the
  transform of a sphere is an exported field. The zero matrix has determinant zero,
  and after it is set it is the transform of the pattern and of the sphere.
\<close>

theorem SetTransform_singular_counterexample:
  "Determinant zero_matrix = 0
   \<and> GetTransform (SetTransform (NewSolidPattern white) zero_matrix) = zero_matrix
   \<and> Transform (NewSphere\<lparr>Transform := zero_matrix\<rparr>) = zero_matrix"
  by (simp add: Determinant_zero_matrix NewSolidPattern_def)

text \<open>
  C9, as amended: setting a transform validates nothing. Whatever matrix is given,
  invertible or not, is the transform of the pattern, or of the sphere, afterwards.
\<close>

theorem SetTransform_stores_any:
  "GetTransform (SetTransform p m) = m \<and> Transform (s\<lparr>Transform := m\<rparr>) = m"
  by (cases p) simp_all

section \<open>The sphere\<close>

text \<open>
  C2. With the ray taken into object space by the inverse of the sphere's transform,
  \<open>oc\<close> the object-space origin of the ray minus the center, \<open>a = dot(dir, dir)\<close>,
  \<open>b = 2 dot(dir, oc)\<close>, \<open>c = dot(oc, oc) - 1\<close>: when the discriminant
  \<open>b\<^sup>2 - 4ac\<close> is negative \<open>Sphere.Intersect\<close> returns the empty set; otherwise it
  returns exactly two intersections, both with the sphere as their object, and (the
  direction not being of length zero, so that the division is defined) the first at
  \<open>(-b - \<surd>discriminant) / 2a\<close> and the second at \<open>(-b + \<surd>discriminant) / 2a\<close>.
\<close>

theorem Sphere_Intersect_roots:
  "let r = Ray_Transform ray (Inverse (Transform s));
       oc = Tuple_Subtract (Origin r) Origin_point;
       a = Dot (Direction r) (Direction r);
       b = 2 * Dot (Direction r) oc;
       c = Dot oc oc - 1;
       discriminant = b\<^sup>2 - 4 * a * c
   in (discriminant < 0 \<longrightarrow> Intersect s ray = [])
    \<and> (\<not> discriminant < 0 \<longrightarrow>
         length (Intersect s ray) = 2
         \<and> map Object (Intersect s ray) = [s, s]
         \<and> (a \<noteq> 0 \<longrightarrow> map T (Intersect s ray) =
               [(- b - sqrt discriminant) / (2 * a), (- b + sqrt discriminant) / (2 * a)]))"
  by (simp add: Intersect_def Let_def NewIntersection_def)

theorem Sphere_Intersect_roots_witness:
  "Intersect NewSphere \<lparr>Origin = NewPoint 0 2 (- 5), Direction = NewVector 0 0 1\<rparr> = []
   \<and> map T (Intersect NewSphere \<lparr>Origin = NewPoint 0 1 (- 5), Direction = NewVector 0 0 1\<rparr>)
       = [5, 5]
   \<and> map Object (Intersect NewSphere \<lparr>Origin = NewPoint 0 1 (- 5), Direction = NewVector 0 0 1\<rparr>)
       = [NewSphere, NewSphere]"
  using Sphere_Intersect_roots [of "\<lparr>Origin = NewPoint 0 2 (- 5), Direction = NewVector 0 0 1\<rparr>"
      NewSphere]
    Sphere_Intersect_roots [of "\<lparr>Origin = NewPoint 0 1 (- 5), Direction = NewVector 0 0 1\<rparr>"
      NewSphere]
  by (simp add: Let_def NewSphere_def Inverse_NewTransform Ray_Transform_def
      MultiplyTuple_NewTransform NewPoint_def NewVector_def Origin_point_def Tuple_Subtract_def
      Dot_def)

text \<open>
  C3. On the sphere with the identity transform, the ray from \<open>(0, 0, -5)\<close> in
  direction \<open>(0, 0, 1)\<close> intersects at \<open>t = 4\<close> and \<open>t = 6\<close>, in that order, and the ray
  from \<open>(0, 0, 0)\<close> in the same direction at \<open>t = -1\<close> and \<open>t = 1\<close>.
\<close>

theorem Sphere_Intersect_examples:
  "Intersect NewSphere \<lparr>Origin = NewPoint 0 0 (- 5), Direction = NewVector 0 0 1\<rparr>
     = [NewIntersection 4 NewSphere, NewIntersection 6 NewSphere]
   \<and> Intersect NewSphere \<lparr>Origin = NewPoint 0 0 0, Direction = NewVector 0 0 1\<rparr>
     = [NewIntersection (- 1) NewSphere, NewIntersection 1 NewSphere]"
  by (simp add: Intersect_def Let_def NewSphere_def Inverse_NewTransform Ray_Transform_def
      MultiplyTuple_NewTransform NewPoint_def NewVector_def Origin_point_def Tuple_Subtract_def
      Dot_def)

text \<open>
  C4. \<open>Sphere.NormalAt\<close> takes the world point into object space by the inverse of
  the sphere's transform, subtracts the origin, applies the transpose of the inverse,
  sets the \<open>w\<close> component to 0 and normalizes. For an invertible affine transform and
  a world point on the sphere the result has length 1 and \<open>w = 0\<close>. On the sphere with
  the identity transform the normal at \<open>(1, 0, 0)\<close> is \<open>(1, 0, 0)\<close>, at \<open>(0, 1, 0)\<close> it
  is \<open>(0, 1, 0)\<close>, and at \<open>(\<surd>3/3, \<surd>3/3, \<surd>3/3)\<close> it is \<open>(\<surd>3/3, \<surd>3/3, \<surd>3/3)\<close>.
\<close>

theorem Sphere_NormalAt_unit:
  "NormalAt s worldPoint =
     Normalize (set_W (MultiplyTuple (Transpose (Inverse (Transform s)))
        (Tuple_Subtract (MultiplyTuple (Inverse (Transform s)) worldPoint) Origin_point)) 0)
   \<and> (Determinant (Transform s) \<noteq> 0 \<and> affine (Transform s) \<and> on_sphere s worldPoint \<longrightarrow>
        Magnitude (NormalAt s worldPoint) = 1 \<and> W (NormalAt s worldPoint) = 0)
   \<and> NormalAt NewSphere (NewPoint 1 0 0) = NewVector 1 0 0
   \<and> NormalAt NewSphere (NewPoint 0 1 0) = NewVector 0 1 0
   \<and> NormalAt NewSphere (NewPoint (sqrt 3 / 3) (sqrt 3 / 3) (sqrt 3 / 3))
       = NewVector (sqrt 3 / 3) (sqrt 3 / 3) (sqrt 3 / 3)"
proof -
  let ?N = "Inverse (Transform s)"
  let ?v = "Tuple_Subtract (MultiplyTuple ?N worldPoint) Origin_point"
  let ?wn = "MultiplyTuple (Transpose ?N) ?v"
  have shape: "NormalAt s worldPoint = Normalize (set_W ?wn 0)"
    by (simp add: NormalAt_def Let_def)
  have unit: "Magnitude (NormalAt s worldPoint) = 1 \<and> W (NormalAt s worldPoint) = 0"
    if nz: "Determinant (Transform s) \<noteq> 0" and aff: "affine (Transform s)"
      and on: "on_sphere s worldPoint"
  proof -
    have inv: "Multiply ?N (Transform s) = NewTransform"
      using nz by (rule Inverse_left)
    have v: "(X ?v)\<^sup>2 + (Y ?v)\<^sup>2 + (Z ?v)\<^sup>2 = 1"
      using on by (simp add: on_sphere_def Let_def Tuple_Subtract_def Origin_point_def NewPoint_def)
    have "X ?wn \<noteq> 0 \<or> Y ?wn \<noteq> 0 \<or> Z ?wn \<noteq> 0"
    proof (rule ccontr)
      assume "\<not> ?thesis"
      then have z: "X ?wn = 0" "Y ?wn = 0" "Z ?wn = 0" by simp_all
      have "X ?v = 0" "Y ?v = 0" "Z ?v = 0"
        using normal_pulled_back [OF inv aff, of ?v] by (simp_all only: z mult_zero_right add_0)
      with v show False by simp
    qed
    then have "Magnitude (Normalize (set_W ?wn 0)) = 1"
      by (intro Magnitude_Normalize) (simp add: set_W_def)
    moreover have "W (Normalize (set_W ?wn 0)) = 0"
      by (simp add: Normalize_def Let_def set_W_def)
    ultimately show ?thesis by (simp only: shape) 
  qed
  have id: "NormalAt NewSphere (Tuple x y z 1) = Normalize (Tuple x y z 0)" for x y z
    by (simp add: NormalAt_def Let_def NewSphere_def Inverse_NewTransform
        Transpose_NewTransform MultiplyTuple_NewTransform Tuple_Subtract_def Origin_point_def
        NewPoint_def set_W_def)
  have e1: "NormalAt NewSphere (NewPoint 1 0 0) = NewVector 1 0 0"
    by (simp add: NewPoint_def id NewVector_def Normalize_def Magnitude_def)
  have e2: "NormalAt NewSphere (NewPoint 0 1 0) = NewVector 0 1 0"
    by (simp add: NewPoint_def id NewVector_def Normalize_def Magnitude_def)
  have "sqrt 3 / 3 * (sqrt 3 / 3) + sqrt 3 / 3 * (sqrt 3 / 3) + sqrt 3 / 3 * (sqrt 3 / 3) = (1::real)"
    by simp
  then have e3: "NormalAt NewSphere (NewPoint (sqrt 3 / 3) (sqrt 3 / 3) (sqrt 3 / 3))
       = NewVector (sqrt 3 / 3) (sqrt 3 / 3) (sqrt 3 / 3)"
    by (simp add: NewPoint_def id NewVector_def Normalize_def Magnitude_def)
  from shape unit e1 e2 e3 show ?thesis by blast
qed

theorem Sphere_NormalAt_unit_witness:
  "Determinant (Matrix (Tuple 2 0 0 3) (Tuple 0 1 0 0) (Tuple 0 0 1 0) (Tuple 0 0 0 1)) \<noteq> 0
   \<and> affine (Matrix (Tuple 2 0 0 3) (Tuple 0 1 0 0) (Tuple 0 0 1 0) (Tuple 0 0 0 1))
   \<and> on_sphere \<lparr>Transform = Matrix (Tuple 2 0 0 3) (Tuple 0 1 0 0) (Tuple 0 0 1 0) (Tuple 0 0 0 1)\<rparr>
        (NewPoint 5 0 0)
   \<and> Magnitude (NormalAt
        \<lparr>Transform = Matrix (Tuple 2 0 0 3) (Tuple 0 1 0 0) (Tuple 0 0 1 0) (Tuple 0 0 0 1)\<rparr>
        (NewPoint 5 0 0)) = 1
   \<and> W (NormalAt
        \<lparr>Transform = Matrix (Tuple 2 0 0 3) (Tuple 0 1 0 0) (Tuple 0 0 1 0) (Tuple 0 0 0 1)\<rparr>
        (NewPoint 5 0 0)) = 0"
  using Sphere_NormalAt_unit
    [of "\<lparr>Transform = Matrix (Tuple 2 0 0 3) (Tuple 0 1 0 0) (Tuple 0 0 1 0) (Tuple 0 0 0 1)\<rparr>"
      "NewPoint 5 0 0", THEN conjunct2, THEN conjunct1]
  by (simp add: on_sphere_def affine_def Let_def Inverse_def Determinant_def Cofactors_def
      det3_def Transpose_def scale_row_def MultiplyTuple_def Dot_def NewPoint_def)

section \<open>Stripes, gradients and checkers\<close>

text \<open>
  C6. At every point whose \<open>x\<close> converts to an \<open>int\<close>, \<open>StripePattern.At\<close> is \<open>A.At\<close>
  when the floor of \<open>x\<close> is even and \<open>B.At\<close> otherwise, for negative \<open>x\<close> as well; the
  bands repeat with period 2 along \<open>x\<close>; and the stripe pattern of white and black is
  white at \<open>x = 0\<close>, \<open>0.9\<close> and \<open>-1.1\<close>, black at \<open>x = 1\<close>, \<open>-0.1\<close> and \<open>-1\<close>.
\<close>

theorem StripePattern_At_bands:
  "(fits_int (X point) \<longrightarrow>
      At (StripePattern m a b) point
        = (if \<lfloor>X point\<rfloor> mod 2 = 0 then At a point else At b point))
   \<and> (fits_int x \<and> fits_int (x + 2) \<longrightarrow>
        At (StripePattern m (SolidPattern ma ca) (SolidPattern mb cb)) (Tuple (x + 2) y z w)
        = At (StripePattern m (SolidPattern ma ca) (SolidPattern mb cb)) (Tuple x y z w))
   \<and> At (NewStripePattern (NewSolidPattern white) (NewSolidPattern black))
        (NewPoint 0 0 0) = Some white
   \<and> At (NewStripePattern (NewSolidPattern white) (NewSolidPattern black))
        (NewPoint (9 / 10) 0 0) = Some white
   \<and> At (NewStripePattern (NewSolidPattern white) (NewSolidPattern black))
        (NewPoint 1 0 0) = Some black
   \<and> At (NewStripePattern (NewSolidPattern white) (NewSolidPattern black))
        (NewPoint (- 1 / 10) 0 0) = Some black
   \<and> At (NewStripePattern (NewSolidPattern white) (NewSolidPattern black))
        (NewPoint (- 1) 0 0) = Some black
   \<and> At (NewStripePattern (NewSolidPattern white) (NewSolidPattern black))
        (NewPoint (- 11 / 10) 0 0) = Some white"
  by (simp add: stripe_band NewStripePattern_def NewSolidPattern_def NewPoint_def
      floor_minus_1 white_def black_def)

theorem StripePattern_At_bands_witness:
  "fits_int (X (NewPoint (- 11 / 10) 0 0))
   \<and> At (StripePattern NewTransform (NewSolidPattern white) (NewSolidPattern black))
        (NewPoint (- 11 / 10) 0 0) = Some white
   \<and> fits_int (- 11 / 10) \<and> fits_int (- 11 / 10 + 2)
   \<and> At (StripePattern NewTransform (SolidPattern NewTransform white)
            (SolidPattern NewTransform black)) (Tuple (- 11 / 10 + 2) 0 0 1) = Some white"
  using StripePattern_At_bands [of "NewPoint (- 11 / 10) 0 0" NewTransform
      "NewSolidPattern white" "NewSolidPattern black" "- 11 / 10" NewTransform white
      NewTransform black 0 0 1]
  by (simp add: fits_int_def NewPoint_def NewSolidPattern_def)

text \<open>
  C7. The claim: the fraction \<open>x - \<lfloor>x\<rfloor>\<close> of \<open>GradientPattern.At\<close> is always in
  \<open>[0, 1)\<close>. The source subtracts in \<open>float64\<close>. At \<open>x = - 2 ^ (- 60)\<close>, which is a
  \<open>float64\<close>, the floor is \<open>-1\<close> and the exact difference \<open>1 - 2 ^ (- 60)\<close> rounds to
  \<open>1\<close>: the fraction is 1, and the gradient of white and black is black there, the
  color of child B.
\<close>

theorem GradientPattern_fraction_counterexample:
  "float64_sub (X (NewPoint (- (1 / 2 ^ 60)) 0 0)) (Floor (X (NewPoint (- (1 / 2 ^ 60)) 0 0))) = 1
   \<and> At (NewGradientPattern (NewSolidPattern white) (NewSolidPattern black))
        (NewPoint (- (1 / 2 ^ 60)) 0 0) = Some black"
proof -
  have fl: "\<lfloor>- (1 / 2 ^ 60) :: real\<rfloor> = - 1"
    by (simp add: floor_eq_iff)
  have fr: "float64_sub (- (1 / 2 ^ 60)) (Floor (- (1 / 2 ^ 60))) = 1"
    using round_float64_below_one by (simp add: float64_sub_def Floor_def fl)
  show ?thesis
    by (simp add: NewPoint_def NewGradientPattern_def NewSolidPattern_def fr [simplified]
        white_def black_def)
qed

text \<open>
  C7, as amended. Where child A has the color \<open>(ar, ag, ab)\<close> and child B the color
  \<open>(br, bg, bb)\<close> at the point, \<open>GradientPattern.At\<close> is \<open>A + frac (B - A)\<close> channel by
  channel, with \<open>frac\<close> the \<open>float64\<close> difference of \<open>x\<close> and its floor; \<open>frac\<close> lies in
  \<open>[0, 1]\<close> (it can be 1) and is the same at \<open>x\<close> and at \<open>x + 1\<close>; and the gradient of
  white and black is white at \<open>x = 0\<close>, \<open>0.75\<close> in every channel at \<open>x = 0.25\<close>, \<open>0.5\<close>
  at \<open>x = 0.5\<close> and \<open>0.25\<close> at \<open>x = 0.75\<close>.
\<close>

theorem GradientPattern_At_blend:
  "(At a point = Some (NewColor ar ag ab) \<and> At b point = Some (NewColor br bg bb) \<longrightarrow>
      At (GradientPattern m a b) point =
        Some (NewColor (ar + float64_sub (X point) (Floor (X point)) * (br - ar))
                       (ag + float64_sub (X point) (Floor (X point)) * (bg - ag))
                       (ab + float64_sub (X point) (Floor (X point)) * (bb - ab))))
   \<and> 0 \<le> float64_sub (X point) (Floor (X point))
   \<and> float64_sub (X point) (Floor (X point)) \<le> 1
   \<and> float64_sub (x + 1) (Floor (x + 1)) = float64_sub x (Floor x)
   \<and> At (NewGradientPattern (NewSolidPattern white) (NewSolidPattern black))
        (NewPoint 0 0 0) = Some white
   \<and> At (NewGradientPattern (NewSolidPattern white) (NewSolidPattern black))
        (NewPoint (1 / 4) 0 0) = Some (NewColor (3 / 4) (3 / 4) (3 / 4))
   \<and> At (NewGradientPattern (NewSolidPattern white) (NewSolidPattern black))
        (NewPoint (1 / 2) 0 0) = Some (NewColor (1 / 2) (1 / 2) (1 / 2))
   \<and> At (NewGradientPattern (NewSolidPattern white) (NewSolidPattern black))
        (NewPoint (3 / 4) 0 0) = Some (NewColor (1 / 4) (1 / 4) (1 / 4))"
proof -
  have blend: "At a point = Some (NewColor ar ag ab) \<and> At b point = Some (NewColor br bg bb) \<longrightarrow>
      At (GradientPattern m a b) point =
        Some (NewColor (ar + float64_sub (X point) (Floor (X point)) * (br - ar))
                       (ag + float64_sub (X point) (Floor (X point)) * (bg - ag))
                       (ab + float64_sub (X point) (Floor (X point)) * (bb - ab)))"
    by (simp add: mult.commute)
  have "0 \<le> X point - of_int \<lfloor>X point\<rfloor>" "X point - of_int \<lfloor>X point\<rfloor> < 1"
    by linarith+
  then have bounds: "0 \<le> float64_sub (X point) (Floor (X point))
      \<and> float64_sub (X point) (Floor (X point)) \<le> 1"
    unfolding float64_sub_def Floor_def by (rule round_float64_unit_interval)
  have period: "float64_sub (x + 1) (Floor (x + 1)) = float64_sub x (Floor x)"
    by (simp add: float64_sub_def Floor_def)
  have f0: "float64_sub 0 (Floor 0) = 0"
    by (simp add: float64_sub_def Floor_def round_float64_def)
  have f1: "float64_sub (1 / 4) (Floor (1 / 4)) = 1 / 4"
    by (simp add: float64_sub_def Floor_def round_float64_quarter)
  have f2: "float64_sub (1 / 2) (Floor (1 / 2)) = 1 / 2"
    by (simp add: float64_sub_def Floor_def round_float64_half)
  have f3: "float64_sub (3 / 4) (Floor (3 / 4)) = 3 / 4"
    by (simp add: float64_sub_def Floor_def round_float64_three_quarters)
  have e0: "At (NewGradientPattern (NewSolidPattern white) (NewSolidPattern black))
        (NewPoint 0 0 0) = Some white"
    by (simp add: NewGradientPattern_def NewSolidPattern_def NewPoint_def white_def black_def f0)
  have e1: "At (NewGradientPattern (NewSolidPattern white) (NewSolidPattern black))
        (NewPoint (1 / 4) 0 0) = Some (NewColor (3 / 4) (3 / 4) (3 / 4))"
    by (simp add: NewGradientPattern_def NewSolidPattern_def NewPoint_def white_def black_def f1)
  have e2: "At (NewGradientPattern (NewSolidPattern white) (NewSolidPattern black))
        (NewPoint (1 / 2) 0 0) = Some (NewColor (1 / 2) (1 / 2) (1 / 2))"
    by (simp add: NewGradientPattern_def NewSolidPattern_def NewPoint_def white_def black_def f2)
  have e3: "At (NewGradientPattern (NewSolidPattern white) (NewSolidPattern black))
        (NewPoint (3 / 4) 0 0) = Some (NewColor (1 / 4) (1 / 4) (1 / 4))"
    by (simp add: NewGradientPattern_def NewSolidPattern_def NewPoint_def white_def black_def f3)
  from blend bounds period e0 e1 e2 e3 show ?thesis by blast
qed

theorem GradientPattern_At_blend_witness:
  "At (NewSolidPattern white) (NewPoint (5 / 4) 0 0) = Some (NewColor 1 1 1)
   \<and> At (NewSolidPattern black) (NewPoint (5 / 4) 0 0) = Some (NewColor 0 0 0)
   \<and> At (GradientPattern NewTransform (NewSolidPattern white) (NewSolidPattern black))
        (NewPoint (5 / 4) 0 0) = Some (NewColor (3 / 4) (3 / 4) (3 / 4))"
proof -
  have "float64_sub (5 / 4) (Floor (5 / 4)) = 1 / 4"
    by (simp add: float64_sub_def Floor_def round_float64_quarter)
  then show ?thesis
    using GradientPattern_At_blend [of "NewSolidPattern white" "NewPoint (5 / 4) 0 0" 1 1 1
        "NewSolidPattern black" 0 0 0 NewTransform, THEN conjunct1]
    by (simp add: NewSolidPattern_def NewPoint_def white_def black_def)
qed

text \<open>
  C8. At every point whose coordinates convert to an \<open>int\<close>, \<open>CheckerPattern.At\<close> is
  \<open>A.At\<close> when the sum of the floors of \<open>x\<close>, \<open>y\<close> and \<open>z\<close> is even and \<open>B.At\<close>
  otherwise; and the checker pattern of white and black is white at the origin and at
  \<open>0.99\<close> on each axis, black at \<open>1.01\<close> on each axis.
\<close>

theorem CheckerPattern_At_cells:
  "(fits_int (X point) \<and> fits_int (Y point) \<and> fits_int (Z point) \<longrightarrow>
      At (CheckerPattern m a b) point =
        (if (\<lfloor>X point\<rfloor> + \<lfloor>Y point\<rfloor> + \<lfloor>Z point\<rfloor>) mod 2 = 0
         then At a point else At b point))
   \<and> At (NewCheckerPattern (NewSolidPattern white) (NewSolidPattern black))
        (NewPoint 0 0 0) = Some white
   \<and> At (NewCheckerPattern (NewSolidPattern white) (NewSolidPattern black))
        (NewPoint (99 / 100) 0 0) = Some white
   \<and> At (NewCheckerPattern (NewSolidPattern white) (NewSolidPattern black))
        (NewPoint (101 / 100) 0 0) = Some black
   \<and> At (NewCheckerPattern (NewSolidPattern white) (NewSolidPattern black))
        (NewPoint 0 (99 / 100) 0) = Some white
   \<and> At (NewCheckerPattern (NewSolidPattern white) (NewSolidPattern black))
        (NewPoint 0 (101 / 100) 0) = Some black
   \<and> At (NewCheckerPattern (NewSolidPattern white) (NewSolidPattern black))
        (NewPoint 0 0 (99 / 100)) = Some white
   \<and> At (NewCheckerPattern (NewSolidPattern white) (NewSolidPattern black))
        (NewPoint 0 0 (101 / 100)) = Some black"
  by (simp add: checker_cell)
    (simp add: int_of_float64_Floor go_rem_2 even_word_of_int64 NewCheckerPattern_def
      NewSolidPattern_def NewPoint_def white_def black_def)

theorem CheckerPattern_At_cells_witness:
  "fits_int (X (NewPoint (- 1 / 2) (3 / 2) (5 / 2)))
   \<and> fits_int (Y (NewPoint (- 1 / 2) (3 / 2) (5 / 2)))
   \<and> fits_int (Z (NewPoint (- 1 / 2) (3 / 2) (5 / 2)))
   \<and> At (CheckerPattern NewTransform (NewSolidPattern white) (NewSolidPattern black))
        (NewPoint (- 1 / 2) (3 / 2) (5 / 2)) = Some white"
  using CheckerPattern_At_cells [of "NewPoint (- 1 / 2) (3 / 2) (5 / 2)" NewTransform
      "NewSolidPattern white" "NewSolidPattern black"]
  by (simp add: fits_int_def NewPoint_def NewSolidPattern_def)

end
